theory Spec2Isabelle
  imports Complex_Main "HOL-Library.AList" "HOL-Library.Multiset"
begin

section \<open>Patient Management System API: model of \<open>main.py\<close>\<close>

text \<open>
  Modelling conventions.
  \<^item> A Python \<open>float\<close> is modelled by an exact rational number (\<open>rat\<close>): comparison
    and ordering are those of the floats, while the IEEE-754 rounding of a division,
    overflow, infinities and NaN are outside the model.
  \<^item> A Python \<open>str\<close> is a \<open>string\<close>; \<open>str.capitalize\<close> is modelled on the ASCII letters
    and leaves every other character as it is.
  \<^item> A JSON value handed to a pydantic model already has the JSON type of the field it
    is meant for, or is \<open>null\<close> (\<open>None\<close>); pydantic's lax coercions between JSON types
    are outside the model.
  \<^item> The file \<open>patients.json\<close> is the state: a dictionary in insertion order, modelled
    as an association list from patient ID to the stored JSON object.
  \<^item> Every \<open>raise\<close> is an \<open>Inl\<close> result.
\<close>

subsection \<open>Errors and responses\<close>

text \<open>
  \<open>ValidationError\<close> is pydantic's error: the list of (field, error type) pairs, in the
  order of the field declarations. \<open>HTTPException\<close> carries the status code and the
  detail string of the source.
\<close>

datatype error =
    ValidationError "(string \<times> string) list"
  | HTTPException nat string

datatype response = JSONResponse nat string

subsection \<open>\<open>str.capitalize\<close>\<close>

definition upper_char :: "char \<Rightarrow> char" where
  "upper_char c =
     (let n = (of_char c :: nat) in if 97 \<le> n \<and> n \<le> 122 then char_of (n - 32) else c)"

definition lower_char :: "char \<Rightarrow> char" where
  "lower_char c =
     (let n = (of_char c :: nat) in if 65 \<le> n \<and> n \<le> 90 then char_of (n + 32) else c)"

fun capitalize :: "string \<Rightarrow> string" where
  "capitalize [] = []"
| "capitalize (c # cs) = upper_char c # map lower_char cs"

subsection \<open>\<open>round(x, ndigits)\<close>\<close>

text \<open>
  Python's \<open>round\<close> with a number of decimal digits rounds to the nearest multiple of
  \<open>10 ^ (- ndigits)\<close> and resolves a tie towards the even multiple.
\<close>

definition py_round :: "rat \<Rightarrow> nat \<Rightarrow> rat" where
  "py_round x ndigits =
     (let y = x * 10 ^ ndigits;
          f = \<lfloor>y\<rfloor>;
          d = y - of_int f;
          k = (if d < 1 / 2 then f else if 1 / 2 < d then f + 1
               else if even f then f else f + 1)
      in of_int k / 10 ^ ndigits)"

subsection \<open>class \<open>Patient\<close>\<close>

text \<open>The validated object: the fields of the class, each of its declared type.\<close>

record patient =
  id :: string
  name :: string
  city :: string
  age :: int
  gender :: string
  height :: rat
  weight :: rat

text \<open>
  The keyword arguments given to \<open>Patient(**kwargs)\<close>, without the \<open>id\<close>; \<open>None\<close> is a
  JSON \<open>null\<close>. Keys other than the declared fields (\<open>bmi\<close>, \<open>verdict\<close>) are ignored
  by pydantic and are not part of the record.
\<close>

record kwargs =
  k_name :: "string option"
  k_city :: "string option"
  k_age :: "int option"
  k_gender :: "string option"
  k_height :: "rat option"
  k_weight :: "rat option"

definition genders :: "string list" where
  "genders = [''Male'', ''Female'', ''Others'']"

text \<open>The validator that runs before the \<open>Literal\<close> check of \<open>gender\<close>.\<close>

definition normalize_gender :: "string option \<Rightarrow> string option" where
  "normalize_gender v = (case v of Some s \<Rightarrow> Some (capitalize s) | None \<Rightarrow> None)"

text \<open>The errors of one field each, in pydantic's error types.\<close>

definition check_str :: "string \<Rightarrow> string option \<Rightarrow> (string \<times> string) list" where
  "check_str f v = (case v of None \<Rightarrow> [(f, ''string_type'')] | Some s \<Rightarrow> [])"

definition check_age :: "int option \<Rightarrow> (string \<times> string) list" where
  "check_age v =
     (case v of None \<Rightarrow> [(''age'', ''int_type'')]
      | Some a \<Rightarrow> if \<not> 0 < a then [(''age'', ''greater_than'')]
                 else if \<not> a < 110 then [(''age'', ''less_than'')] else [])"

definition check_gender :: "string option \<Rightarrow> (string \<times> string) list" where
  "check_gender v =
     (case normalize_gender v of None \<Rightarrow> [(''gender'', ''literal_error'')]
      | Some g \<Rightarrow> if g \<in> set genders then [] else [(''gender'', ''literal_error'')])"

definition check_positive :: "string \<Rightarrow> rat option \<Rightarrow> (string \<times> string) list" where
  "check_positive f v =
     (case v of None \<Rightarrow> [(f, ''float_type'')]
      | Some x \<Rightarrow> if \<not> 0 < x then [(f, ''greater_than'')] else [])"

text \<open>
  \<open>Patient(id=pid, **kw)\<close>: every field is validated, all errors are collected, and the
  object is built when there is none.
\<close>

definition Patient :: "string \<Rightarrow> kwargs \<Rightarrow> error + patient" where
  "Patient pid kw =
     (let errs = check_str ''name'' (k_name kw) @ check_str ''city'' (k_city kw) @
                 check_age (k_age kw) @ check_gender (k_gender kw) @
                 check_positive ''height'' (k_height kw) @
                 check_positive ''weight'' (k_weight kw)
      in if errs \<noteq> [] then Inl (ValidationError errs)
         else Inr \<lparr>id = pid, name = the (k_name kw), city = the (k_city kw),
                   age = the (k_age kw), gender = the (normalize_gender (k_gender kw)),
                   height = the (k_height kw), weight = the (k_weight kw)\<rparr>)"

text \<open>The computed fields.\<close>

definition bmi :: "patient \<Rightarrow> rat" where
  "bmi self = py_round (weight self / (height self) ^ 2) 2"

definition verdict :: "patient \<Rightarrow> string" where
  "verdict self =
     (if bmi self < 18.5 then ''Underweight''
      else if 18.5 \<le> bmi self \<and> bmi self < 24.9 then ''Normal weight''
      else if 25 \<le> bmi self \<and> bmi self < 29.9 then ''Overweight''
      else ''Obesity'')"

text \<open>
  \<open>model_dump(exclude=['id'])\<close>: the JSON object that is stored and returned, with the
  six fields and the two computed fields.
\<close>

record stored =
  s_name :: string
  s_city :: string
  s_age :: int
  s_gender :: string
  s_height :: rat
  s_weight :: rat
  s_bmi :: rat
  s_verdict :: string

definition model_dump :: "patient \<Rightarrow> stored" where
  "model_dump self =
     \<lparr>s_name = name self, s_city = city self, s_age = age self, s_gender = gender self,
      s_height = height self, s_weight = weight self,
      s_bmi = bmi self, s_verdict = verdict self\<rparr>"

text \<open>A stored object read back as keyword arguments (\<open>**pdata\<close>).\<close>

definition stored_kwargs :: "stored \<Rightarrow> kwargs" where
  "stored_kwargs d =
     \<lparr>k_name = Some (s_name d), k_city = Some (s_city d), k_age = Some (s_age d),
      k_gender = Some (s_gender d), k_height = Some (s_height d),
      k_weight = Some (s_weight d)\<rparr>"

subsection \<open>class \<open>PatientUpdate\<close>\<close>

text \<open>
  Every field is optional with default \<open>None\<close>, and pydantic remembers which fields
  the request set: a field is not in the request (\<open>Unset\<close>), set to \<open>null\<close> (\<open>Null\<close>) or
  set to a value (\<open>Given\<close>).
\<close>

datatype 'a field = Unset | Null | Given 'a

record patient_update =
  u_name :: "string field"
  u_city :: "string field"
  u_age :: "int field"
  u_gender :: "string field"
  u_height :: "rat field"
  u_weight :: "rat field"

definition check_opt_age :: "int field \<Rightarrow> (string \<times> string) list" where
  "check_opt_age v =
     (case v of Given a \<Rightarrow> if \<not> 0 < a then [(''age'', ''greater_than'')] else []
      | _ \<Rightarrow> [])"

definition check_opt_gender :: "string field \<Rightarrow> (string \<times> string) list" where
  "check_opt_gender v =
     (case v of Given s \<Rightarrow>
        if capitalize s \<in> set genders then [] else [(''gender'', ''literal_error'')]
      | _ \<Rightarrow> [])"

definition check_opt_positive :: "string \<Rightarrow> rat field \<Rightarrow> (string \<times> string) list" where
  "check_opt_positive f v =
     (case v of Given x \<Rightarrow> if \<not> 0 < x then [(f, ''greater_than'')] else []
      | _ \<Rightarrow> [])"

definition normalize_opt_gender :: "string field \<Rightarrow> string field" where
  "normalize_opt_gender v = (case v of Given s \<Rightarrow> Given (capitalize s) | _ \<Rightarrow> v)"

text \<open>Validation of a request body as a \<open>PatientUpdate\<close>.\<close>

definition PatientUpdate :: "patient_update \<Rightarrow> error + patient_update" where
  "PatientUpdate body =
     (let errs = check_opt_age (u_age body) @ check_opt_gender (u_gender body) @
                 check_opt_positive ''height'' (u_height body) @
                 check_opt_positive ''weight'' (u_weight body)
      in if errs \<noteq> [] then Inl (ValidationError errs)
         else Inr (body\<lparr>u_gender := normalize_opt_gender (u_gender body)\<rparr>))"

text \<open>
  \<open>model_dump(exclude_unset=True)\<close> followed by the loop
  \<open>existing_patient_data[key] = value\<close>: a field that was set overwrites the key, with
  \<open>None\<close> when it was set to \<open>null\<close>.
\<close>

definition assign :: "'a field \<Rightarrow> 'a option \<Rightarrow> 'a option" where
  "assign v old = (case v of Unset \<Rightarrow> old | Null \<Rightarrow> None | Given x \<Rightarrow> Some x)"

definition apply_update :: "patient_update \<Rightarrow> kwargs \<Rightarrow> kwargs" where
  "apply_update u existing =
     \<lparr>k_name = assign (u_name u) (k_name existing),
      k_city = assign (u_city u) (k_city existing),
      k_age = assign (u_age u) (k_age existing),
      k_gender = assign (u_gender u) (k_gender existing),
      k_height = assign (u_height u) (k_height existing),
      k_weight = assign (u_weight u) (k_weight existing)\<rparr>"

subsection \<open>The store\<close>

type_synonym collection = "(string \<times> stored) list"

definition load_data :: "collection \<Rightarrow> collection" where
  "load_data file = file"

definition save_data :: "collection \<Rightarrow> collection \<Rightarrow> collection" where
  "save_data data file = data"

subsection \<open>\<open>GET /sort\<close>\<close>

definition valid_fields :: "string list" where
  "valid_fields = [''height'', ''weight'', ''bmi'']"

text \<open>The text of \<open>f'{valid_fields}'\<close>: the \<open>repr\<close> of a list of strings.\<close>

fun join :: "string \<Rightarrow> string list \<Rightarrow> string" where
  "join sep [] = []"
| "join sep [x] = x"
| "join sep (x # y # ys) = x @ sep @ join sep (y # ys)"

definition repr_list :: "string list \<Rightarrow> string" where
  "repr_list xs = ''['' @ join '', '' (map (\<lambda>s. [CHR 0x27] @ s @ [CHR 0x27]) xs) @ '']''"

text \<open>The loop that turns every stored object into a \<open>Patient\<close>; the first failure raises.\<close>

fun materialize :: "collection \<Rightarrow> error + patient list" where
  "materialize [] = Inr []"
| "materialize ((pid, pdata) # rest) =
     (case Patient pid (stored_kwargs pdata) of
        Inl e \<Rightarrow> Inl e
      | Inr p \<Rightarrow> (case materialize rest of Inl e \<Rightarrow> Inl e | Inr ps \<Rightarrow> Inr (p # ps)))"

text \<open>\<open>x.get(sort_by, 0)\<close> on a dumped object, for the keys that pass the check.\<close>

definition get :: "stored \<Rightarrow> string \<Rightarrow> rat" where
  "get x key =
     (if key = ''height'' then s_height x
      else if key = ''weight'' then s_weight x
      else if key = ''bmi'' then s_bmi x
      else 0)"

text \<open>
  The built-in \<open>sorted(xs, key=..., reverse=...)\<close>: a stable sort; with \<open>reverse\<close> the
  list is reversed, sorted in the same stable way and reversed again, which is how
  CPython keeps the sort stable in descending order.
\<close>

definition sorted_py :: "('a \<Rightarrow> rat) \<Rightarrow> bool \<Rightarrow> 'a list \<Rightarrow> 'a list" where
  "sorted_py key reverse xs =
     (if reverse then rev (sort_key key (rev xs)) else sort_key key xs)"

definition sort_patients :: "string \<Rightarrow> string \<Rightarrow> collection \<Rightarrow> error + stored list" where
  "sort_patients sort_by order file =
     (if sort_by \<notin> set valid_fields
      then Inl (HTTPException 400 (''Invalid field select from '' @ repr_list valid_fields))
      else if order \<notin> set [''asc'', ''desc'']
      then Inl (HTTPException 400 ''Invalid order select between asc and desc'')
      else (case materialize (load_data file) of
              Inl e \<Rightarrow> Inl e
            | Inr patients \<Rightarrow>
                let reverse_sort = (if order = ''desc'' then True else False)
                in Inr (sorted_py (\<lambda>x. get x sort_by) reverse_sort
                          (map model_dump patients))))"

subsection \<open>\<open>POST /create\<close>, \<open>PUT /edit\<close>, \<open>DELETE /delete\<close>\<close>

text \<open>
  Each handler takes the file and returns its result with the file afterwards. A
  handler that raises has not reached \<open>save_data\<close>, so the file is the one it read.
\<close>

definition create_patient ::
  "patient \<Rightarrow> collection \<Rightarrow> (error + response) \<times> collection" where
  "create_patient p file =
     (let data = load_data file in
      if id p \<in> fst ` set data
      then (Inl (HTTPException 400 ''Patient ID already exists''), file)
      else (Inr (JSONResponse 201 ''Patient record created successfully''),
            save_data (AList.update (id p) (model_dump p) data) file))"

definition update_patient ::
  "string \<Rightarrow> patient_update \<Rightarrow> collection \<Rightarrow> (error + response) \<times> collection" where
  "update_patient patient_id patient_update file =
     (let data = load_data file in
      case map_of data patient_id of
        None \<Rightarrow> (Inl (HTTPException 404 ''Patient not found''), file)
      | Some existing_patient_data \<Rightarrow>
          (case Patient patient_id
                  (apply_update patient_update (stored_kwargs existing_patient_data)) of
             Inl e \<Rightarrow> (Inl e, file)
           | Inr patient_pydantic_obj \<Rightarrow>
               (Inr (JSONResponse 200 ''Patient record updated successfully''),
                save_data (AList.update patient_id (model_dump patient_pydantic_obj) data)
                  file)))"

definition delete_patient ::
  "string \<Rightarrow> collection \<Rightarrow> (error + response) \<times> collection" where
  "delete_patient patient_id file =
     (let data = load_data file in
      if patient_id \<notin> fst ` set data
      then (Inl (HTTPException 404 ''Patient not found''), file)
      else (Inr (JSONResponse 200 ''Patient record deleted successfully''),
            save_data (AList.delete patient_id data) file))"

text \<open>
  The error kinds of the specification, as the source raises them. InvalidField is a
  \<open>ValidationError\<close> that lists the field.
\<close>

definition RecordNotFound :: error where
  "RecordNotFound = HTTPException 404 ''Patient not found''"

definition DuplicateID :: error where
  "DuplicateID = HTTPException 400 ''Patient ID already exists''"

definition InvalidSortField :: error where
  "InvalidSortField =
     HTTPException 400 (''Invalid field select from '' @ repr_list valid_fields)"

definition InvalidSortOrder :: error where
  "InvalidSortOrder = HTTPException 400 ''Invalid order select between asc and desc''"

section \<open>Properties\<close>

subsection \<open>Characters and \<open>capitalize\<close>\<close>












lemma capitalize_Male: "capitalize ''Male'' = ''Male''"
  by code_simp

lemma capitalize_Female: "capitalize ''Female'' = ''Female''"
  by code_simp

lemma capitalize_Others: "capitalize ''Others'' = ''Others''"
  by code_simp

lemma capitalize_genders: "g \<in> set genders \<Longrightarrow> capitalize g = g"
  using capitalize_Male capitalize_Female capitalize_Others by (auto simp: genders_def)

subsection \<open>Rounding\<close>


subsection \<open>Derivation of bmi and verdict\<close>



text \<open>
  Claim C2. The verdict is determined from the bmi by the thresholds in order: below
  18.5 Underweight, from 18.5 to below 24.9 Normal weight, from 25 to below 29.9
  Overweight, otherwise Obesity; so every bmi from 24.9 to below 25 and every bmi of at
  least 29.9 gives Obesity. The dumped record carries this bmi and this verdict.
\<close>

theorem verdict_thresholds:
  "(bmi p < 18.5 \<longrightarrow> verdict p = ''Underweight'')
   \<and> (18.5 \<le> bmi p \<and> bmi p < 24.9 \<longrightarrow> verdict p = ''Normal weight'')
   \<and> (25 \<le> bmi p \<and> bmi p < 29.9 \<longrightarrow> verdict p = ''Overweight'')
   \<and> (24.9 \<le> bmi p \<and> bmi p < 25 \<longrightarrow> verdict p = ''Obesity'')
   \<and> (29.9 \<le> bmi p \<longrightarrow> verdict p = ''Obesity'')
   \<and> s_verdict (model_dump p) = verdict p \<and> s_bmi (model_dump p) = bmi p"
  by (simp add: verdict_def model_dump_def)

theorem verdict_thresholds_witness:
  "verdict \<lparr>id = ''P1'', name = ''A'', city = ''X'', age = 30, gender = ''Male'',
            height = 1, weight = 18.49\<rparr> = ''Underweight''
   \<and> verdict \<lparr>id = ''P2'', name = ''A'', city = ''X'', age = 30, gender = ''Male'',
            height = 1, weight = 18.5\<rparr> = ''Normal weight''
   \<and> verdict \<lparr>id = ''P3'', name = ''A'', city = ''X'', age = 30, gender = ''Male'',
            height = 1, weight = 25\<rparr> = ''Overweight''
   \<and> verdict \<lparr>id = ''P4'', name = ''A'', city = ''X'', age = 30, gender = ''Male'',
            height = 1, weight = 24.9\<rparr> = ''Obesity''
   \<and> verdict \<lparr>id = ''P5'', name = ''A'', city = ''X'', age = 30, gender = ''Male'',
            height = 1, weight = 29.9\<rparr> = ''Obesity''"
  using
    verdict_thresholds [of "\<lparr>id = ''P1'', name = ''A'', city = ''X'', age = 30,
            gender = ''Male'', height = 1, weight = 18.49\<rparr>"]
    verdict_thresholds [of "\<lparr>id = ''P2'', name = ''A'', city = ''X'', age = 30,
            gender = ''Male'', height = 1, weight = 18.5\<rparr>"]
    verdict_thresholds [of "\<lparr>id = ''P3'', name = ''A'', city = ''X'', age = 30,
            gender = ''Male'', height = 1, weight = 25\<rparr>"]
    verdict_thresholds [of "\<lparr>id = ''P4'', name = ''A'', city = ''X'', age = 30,
            gender = ''Male'', height = 1, weight = 24.9\<rparr>"]
    verdict_thresholds [of "\<lparr>id = ''P5'', name = ''A'', city = ''X'', age = 30,
            gender = ''Male'', height = 1, weight = 29.9\<rparr>"]
  by (simp add: bmi_def) code_simp

subsection \<open>Validation\<close>

lemma Patient_Inr_iff:
  "Patient pid kw = Inr p \<longleftrightarrow>
     (\<exists>n c a g h w. k_name kw = Some n \<and> k_city kw = Some c
        \<and> k_age kw = Some a \<and> 0 < a \<and> a < 110
        \<and> k_gender kw = Some g \<and> capitalize g \<in> set genders
        \<and> k_height kw = Some h \<and> 0 < h \<and> k_weight kw = Some w \<and> 0 < w
        \<and> p = \<lparr>id = pid, name = n, city = c, age = a, gender = capitalize g,
                 height = h, weight = w\<rparr>)"
  by (auto simp: Patient_def Let_def check_str_def check_age_def check_gender_def
        check_positive_def normalize_gender_def split: option.splits if_splits)

lemma Patient_Inl:
  "Patient pid kw = Inl e \<Longrightarrow> \<exists>errs. e = ValidationError errs \<and> errs \<noteq> []"
  by (auto simp: Patient_def Let_def split: if_splits)









text \<open>
  Against claim C4: a full record with the empty string as name and as city is
  constructed without error.
\<close>

theorem patient_empty_name_counterexample:
  "Patient ''P001'' \<lparr>k_name = Some [], k_city = Some [], k_age = Some 30,
      k_gender = Some ''male'', k_height = Some 1.75, k_weight = Some 70.2\<rparr>
   = Inr \<lparr>id = ''P001'', name = [], city = [], age = 30, gender = ''Male'',
          height = 1.75, weight = 70.2\<rparr>"
  by code_simp

text \<open>
  Claim C4, amended. Full-record validation requires name and city to be strings and
  accepts the empty string: for any strings as name and city, construction succeeds
  exactly when age, gender, height and weight satisfy their constraints, and a null
  name or city fails with a validation error.
\<close>

theorem patient_name_city_any_string:
  "((\<exists>p. Patient pid (kw\<lparr>k_name := Some n, k_city := Some c\<rparr>) = Inr p) \<longleftrightarrow>
      (\<exists>a g h w. k_age kw = Some a \<and> 0 < a \<and> a < 110
         \<and> k_gender kw = Some g \<and> capitalize g \<in> set genders
         \<and> k_height kw = Some h \<and> 0 < h \<and> k_weight kw = Some w \<and> 0 < w))
   \<and> (k_name kw = None \<or> k_city kw = None \<longrightarrow>
        (\<exists>errs. Patient pid kw = Inl (ValidationError errs) \<and> errs \<noteq> []))"
proof
  show "(\<exists>p. Patient pid (kw\<lparr>k_name := Some n, k_city := Some c\<rparr>) = Inr p) \<longleftrightarrow>
      (\<exists>a g h w. k_age kw = Some a \<and> 0 < a \<and> a < 110
         \<and> k_gender kw = Some g \<and> capitalize g \<in> set genders
         \<and> k_height kw = Some h \<and> 0 < h \<and> k_weight kw = Some w \<and> 0 < w)"
    by (auto simp: Patient_Inr_iff)
next
  show "k_name kw = None \<or> k_city kw = None \<longrightarrow>
        (\<exists>errs. Patient pid kw = Inl (ValidationError errs) \<and> errs \<noteq> [])"
    by (auto simp: Patient_def Let_def check_str_def)
qed

theorem patient_name_city_any_string_witness:
  "(\<exists>p. Patient ''P001'' \<lparr>k_name = Some [], k_city = Some [], k_age = Some 30,
      k_gender = Some ''male'', k_height = Some 2, k_weight = Some 80\<rparr> = Inr p)
   \<and> (\<exists>errs. Patient ''P001'' \<lparr>k_name = None, k_city = Some ''New York'', k_age = Some 30,
      k_gender = Some ''male'', k_height = Some 2, k_weight = Some 80\<rparr>
        = Inl (ValidationError errs) \<and> errs \<noteq> [])"
proof -
  let ?kw = "\<lparr>k_name = None, k_city = Some ''New York'', k_age = Some 30,
      k_gender = Some ''male'', k_height = Some 2, k_weight = Some 80\<rparr>"
  have g: "capitalize ''male'' \<in> set genders" by code_simp
  have rhs: "\<exists>a g h w. k_age ?kw = Some a \<and> 0 < a \<and> a < 110
         \<and> k_gender ?kw = Some g \<and> capitalize g \<in> set genders
         \<and> k_height ?kw = Some h \<and> 0 < h \<and> k_weight ?kw = Some w \<and> 0 < w"
    using g by (simp del: capitalize.simps)
  have nm: "k_name ?kw = None \<or> k_city ?kw = None" by simp
  note t = patient_name_city_any_string
    [where pid = "''P001''" and kw = ?kw and n = "[]" and c = "[]"]
  from t rhs have 1: "\<exists>p. Patient ''P001'' (?kw\<lparr>k_name := Some [], k_city := Some []\<rparr>) = Inr p"
    by blast
  from t nm have 2: "\<exists>errs. Patient ''P001'' ?kw = Inl (ValidationError errs) \<and> errs \<noteq> []"
    by blast
  from 1 2 show ?thesis by simp
qed

text \<open>
  Claim C5 at the input \<open>{"age": 150}\<close>: the partial update passes its own validation,
  which bounds age from below only, while the full record rejects the same age with
  \<open>less_than\<close>.
\<close>

theorem update_age_not_bounded:
  "PatientUpdate \<lparr>u_name = Unset, u_city = Unset, u_age = Given 150, u_gender = Unset,
      u_height = Unset, u_weight = Unset\<rparr>
   = Inr \<lparr>u_name = Unset, u_city = Unset, u_age = Given 150, u_gender = Unset,
      u_height = Unset, u_weight = Unset\<rparr>
   \<and> Patient ''P001'' \<lparr>k_name = Some ''John Doe'', k_city = Some ''New York'',
        k_age = Some 150, k_gender = Some ''Male'', k_height = Some 1.75,
        k_weight = Some 70.2\<rparr> = Inl (ValidationError [(''age'', ''less_than'')])"
  by code_simp

subsection \<open>The handlers and the collection\<close>

lemma materialize_Inl:
  "materialize data = Inl e \<Longrightarrow> \<exists>errs. e = ValidationError errs \<and> errs \<noteq> []"
  by (induction data arbitrary: e rule: materialize.induct)
     (auto split: sum.splits dest: Patient_Inl)


lemma in_keys_map_of: "k \<in> fst ` set al \<longleftrightarrow> map_of al k \<noteq> None"
  by (simp add: map_of_eq_None_iff)

text \<open>
  Claim C7. Create with an ID already in the collection fails with DuplicateID; update
  and delete with an ID not in the collection fail with RecordNotFound; and whenever
  create, update or delete fails, for these or for any other reason, the collection
  afterwards is the collection before.
\<close>

theorem failed_mutation_keeps_collection:
  "(id p \<in> fst ` set coll \<longrightarrow> create_patient p coll = (Inl DuplicateID, coll))
   \<and> (patient_id \<notin> fst ` set coll \<longrightarrow>
         update_patient patient_id u coll = (Inl RecordNotFound, coll)
         \<and> delete_patient patient_id coll = (Inl RecordNotFound, coll))
   \<and> (\<forall>e. fst (create_patient p coll) = Inl e \<longrightarrow> snd (create_patient p coll) = coll)
   \<and> (\<forall>e. fst (update_patient patient_id u coll) = Inl e \<longrightarrow>
          snd (update_patient patient_id u coll) = coll)
   \<and> (\<forall>e. fst (delete_patient patient_id coll) = Inl e \<longrightarrow>
          snd (delete_patient patient_id coll) = coll)"
proof -
  have absent: "patient_id \<notin> fst ` set coll \<Longrightarrow> map_of coll patient_id = None"
    by (simp add: map_of_eq_None_iff)
  show ?thesis
    by (auto simp: create_patient_def update_patient_def delete_patient_def load_data_def
          save_data_def DuplicateID_def RecordNotFound_def Let_def absent
          split: option.splits sum.splits)
qed

theorem failed_mutation_keeps_collection_witness:
  "let john = \<lparr>s_name = ''John Doe'', s_city = ''New York'', s_age = 30,
                 s_gender = ''Male'', s_height = 1.75, s_weight = 70.2,
                 s_bmi = 22.92, s_verdict = ''Normal weight''\<rparr>;
       coll = [(''P001'', john)];
       p = \<lparr>id = ''P001'', name = ''Jane Roe'', city = ''Pune'', age = 41,
            gender = ''Female'', height = 1.6, weight = 64\<rparr>;
       none = \<lparr>u_name = Unset, u_city = Unset, u_age = Unset, u_gender = Unset,
               u_height = Unset, u_weight = Unset\<rparr>
   in id p \<in> fst ` set coll
      \<and> create_patient p coll = (Inl DuplicateID, coll)
      \<and> ''P002'' \<notin> fst ` set coll
      \<and> update_patient ''P002'' none coll = (Inl RecordNotFound, coll)
      \<and> delete_patient ''P002'' coll = (Inl RecordNotFound, coll)
      \<and> fst (update_patient ''P001'' (none\<lparr>u_age := Given 150\<rparr>) coll)
          = Inl (ValidationError [(''age'', ''less_than'')])
      \<and> snd (update_patient ''P001'' (none\<lparr>u_age := Given 150\<rparr>) coll) = coll"
proof -
  let ?john = "\<lparr>s_name = ''John Doe'', s_city = ''New York'', s_age = 30,
                 s_gender = ''Male'', s_height = 1.75, s_weight = 70.2,
                 s_bmi = 22.92, s_verdict = ''Normal weight''\<rparr>"
  let ?coll = "[(''P001'', ?john)]"
  let ?p = "\<lparr>id = ''P001'', name = ''Jane Roe'', city = ''Pune'', age = 41,
            gender = ''Female'', height = 1.6, weight = 64\<rparr>"
  let ?none = "\<lparr>u_name = Unset, u_city = Unset, u_age = Unset, u_gender = Unset,
               u_height = Unset, u_weight = Unset\<rparr>"
  have a: "id ?p \<in> fst ` set ?coll" by simp
  have b: "''P002'' \<notin> fst ` set ?coll" by simp
  have c: "fst (update_patient ''P001'' (?none\<lparr>u_age := Given 150\<rparr>) ?coll)
          = Inl (ValidationError [(''age'', ''less_than'')])"
    by code_simp
  note t1 = failed_mutation_keeps_collection
    [where p = ?p and coll = ?coll and patient_id = "''P002''" and u = ?none]
  note t2 = failed_mutation_keeps_collection
    [where p = ?p and coll = ?coll and patient_id = "''P001''"
       and u = "?none\<lparr>u_age := Given 150\<rparr>"]
  from t1 a have 1: "create_patient ?p ?coll = (Inl DuplicateID, ?coll)" by blast
  from t1 b have 2: "update_patient ''P002'' ?none ?coll = (Inl RecordNotFound, ?coll)"
    and 3: "delete_patient ''P002'' ?coll = (Inl RecordNotFound, ?coll)" by blast+
  from t2 c have 4: "snd (update_patient ''P001'' (?none\<lparr>u_age := Given 150\<rparr>) ?coll) = ?coll"
    by blast
  from a b c 1 2 3 4 show ?thesis unfolding Let_def by blast
qed

text \<open>
  Against claim C9: with \<open>sort_by = "age"\<close> and \<open>order = "up"\<close> the field is checked
  first, so the failure is not InvalidSortOrder.
\<close>

theorem sort_both_invalid_counterexample:
  "sort_patients ''age'' ''up'' [] \<noteq> Inl InvalidSortOrder"
  by code_simp

text \<open>
  Claim C9, amended. The sort operation fails with InvalidSortField for every sort_by
  outside height, weight, bmi; it fails with InvalidSortOrder for every order outside
  asc, desc when sort_by is accepted; and it goes on to materialize and sort the
  records exactly when both parameters are accepted.
\<close>

theorem sort_parameter_checks:
  "(sort_by \<notin> {''height'', ''weight'', ''bmi''} \<longrightarrow>
      sort_patients sort_by order coll = Inl InvalidSortField)
   \<and> (sort_by \<in> {''height'', ''weight'', ''bmi''} \<and> order \<notin> {''asc'', ''desc''} \<longrightarrow>
      sort_patients sort_by order coll = Inl InvalidSortOrder)
   \<and> ((sort_by \<in> {''height'', ''weight'', ''bmi''} \<and> order \<in> {''asc'', ''desc''}) \<longleftrightarrow>
        sort_patients sort_by order coll \<noteq> Inl InvalidSortField
        \<and> sort_patients sort_by order coll \<noteq> Inl InvalidSortOrder)
   \<and> (sort_by \<in> {''height'', ''weight'', ''bmi''} \<and> order \<in> {''asc'', ''desc''} \<longrightarrow>
        sort_patients sort_by order coll =
          (case materialize coll of Inl e \<Rightarrow> Inl e
           | Inr patients \<Rightarrow> Inr (sorted_py (\<lambda>x. get x sort_by) (order = ''desc'')
                                   (map model_dump patients))))"
proof -
  have neq: "InvalidSortField \<noteq> InvalidSortOrder"
    by (simp add: InvalidSortField_def InvalidSortOrder_def)
  have vf: "set valid_fields = {''height'', ''weight'', ''bmi''}"
    by (simp add: valid_fields_def)
  have a: "sort_by \<notin> {''height'', ''weight'', ''bmi''} \<longrightarrow>
      sort_patients sort_by order coll = Inl InvalidSortField"
    unfolding vf [symmetric] by (simp add: sort_patients_def InvalidSortField_def)
  have b: "sort_by \<in> {''height'', ''weight'', ''bmi''} \<and> order \<notin> {''asc'', ''desc''} \<longrightarrow>
      sort_patients sort_by order coll = Inl InvalidSortOrder"
    unfolding vf [symmetric] by (simp add: sort_patients_def InvalidSortOrder_def)
  have c: "sort_by \<in> {''height'', ''weight'', ''bmi''} \<and> order \<in> {''asc'', ''desc''} \<longrightarrow>
        sort_patients sort_by order coll =
          (case materialize coll of Inl e \<Rightarrow> Inl e
           | Inr patients \<Rightarrow> Inr (sorted_py (\<lambda>x. get x sort_by) (order = ''desc'')
                                   (map model_dump patients)))"
    unfolding vf [symmetric]
    by (simp add: sort_patients_def load_data_def Let_def split: sum.splits)
  have d: "sort_by \<in> {''height'', ''weight'', ''bmi''} \<and> order \<in> {''asc'', ''desc''} \<longrightarrow>
        sort_patients sort_by order coll \<noteq> Inl InvalidSortField
        \<and> sort_patients sort_by order coll \<noteq> Inl InvalidSortOrder"
  proof (intro impI)
    assume h: "sort_by \<in> {''height'', ''weight'', ''bmi''} \<and> order \<in> {''asc'', ''desc''}"
    with c have eq: "sort_patients sort_by order coll =
          (case materialize coll of Inl e \<Rightarrow> Inl e
           | Inr patients \<Rightarrow> Inr (sorted_py (\<lambda>x. get x sort_by) (order = ''desc'')
                                   (map model_dump patients)))" by blast
    show "sort_patients sort_by order coll \<noteq> Inl InvalidSortField
        \<and> sort_patients sort_by order coll \<noteq> Inl InvalidSortOrder"
      unfolding eq
      by (auto simp: InvalidSortField_def InvalidSortOrder_def split: sum.splits
            dest: materialize_Inl)
  qed
  from a b c d neq show ?thesis by blast
qed

theorem sort_parameter_checks_witness:
  "sort_patients ''age'' ''asc'' [] = Inl InvalidSortField
   \<and> sort_patients ''age'' ''up'' [] = Inl InvalidSortField
   \<and> sort_patients ''bmi'' ''up'' [] = Inl InvalidSortOrder
   \<and> sort_patients ''bmi'' ''desc'' [] = Inr []"
proof -
  have a: "''age'' \<notin> {''height'', ''weight'', ''bmi''}" by simp
  have b: "''bmi'' \<in> {''height'', ''weight'', ''bmi''} \<and> ''up'' \<notin> {''asc'', ''desc''}" by simp
  have c: "''bmi'' \<in> {''height'', ''weight'', ''bmi''} \<and> ''desc'' \<in> {''asc'', ''desc''}" by simp
  from sort_parameter_checks [where sort_by = "''age''" and order = "''asc''" and coll = "[]"] a
  have 1: "sort_patients ''age'' ''asc'' [] = Inl InvalidSortField" by blast
  from sort_parameter_checks [where sort_by = "''age''" and order = "''up''" and coll = "[]"] a
  have 2: "sort_patients ''age'' ''up'' [] = Inl InvalidSortField" by blast
  from sort_parameter_checks [where sort_by = "''bmi''" and order = "''up''" and coll = "[]"] b
  have 3: "sort_patients ''bmi'' ''up'' [] = Inl InvalidSortOrder" by blast
  from sort_parameter_checks [where sort_by = "''bmi''" and order = "''desc''" and coll = "[]"] c
  have "sort_patients ''bmi'' ''desc'' [] =
          (case materialize [] of Inl e \<Rightarrow> Inl e
           | Inr patients \<Rightarrow> Inr (sorted_py (\<lambda>x. get x ''bmi'') (''desc'' = ''desc'')
                                   (map model_dump patients)))" by blast
  then have 4: "sort_patients ''bmi'' ''desc'' [] = Inr []"
    by (simp add: sorted_py_def)
  from 1 2 3 4 show ?thesis by blast
qed




subsection \<open>Sorting\<close>









subsection \<open>Stored records stay valid\<close>

text \<open>
  A record written by create or update is the dump of a validated \<open>Patient\<close>, and such
  a dump validates again to the same patient with the same derived fields. So a
  collection of valid records with consistent derived fields stays one under create,
  update and delete.
\<close>

lemma dump_revalidates:
  assumes "Patient pid kw = Inr p"
  shows "Patient k (stored_kwargs (model_dump p)) = Inr (p\<lparr>id := k\<rparr>)
         \<and> model_dump (p\<lparr>id := k\<rparr>) = model_dump p"
proof -
  from assms have c: "0 < age p" "age p < 110" "gender p \<in> set genders"
      "0 < height p" "0 < weight p"
    by (auto simp: Patient_Inr_iff)
  from c(3) have g: "capitalize (gender p) = gender p"
    by (rule capitalize_genders)
  have "Patient k (stored_kwargs (model_dump p)) = Inr (p\<lparr>id := k\<rparr>)"
    using c g by (simp add: Patient_Inr_iff stored_kwargs_def model_dump_def)
  moreover have "model_dump (p\<lparr>id := k\<rparr>) = model_dump p"
    by (simp add: model_dump_def bmi_def verdict_def)
  ultimately show ?thesis ..
qed

lemma set_update_subset: "set (AList.update k v al) \<subseteq> insert (k, v) (set al)"
  by (induction al) auto

lemma set_delete_subset: "set (AList.delete k al) \<subseteq> set al"
  by (auto simp: AList.delete_eq)

lemma create_keeps_valid:
  assumes "\<forall>(k, d) \<in> set coll. \<exists>q. Patient k (stored_kwargs d) = Inr q \<and> model_dump q = d"
    and "Patient (id p) kw = Inr p"
  shows "\<forall>(k, d) \<in> set (snd (create_patient p coll)).
           \<exists>q. Patient k (stored_kwargs d) = Inr q \<and> model_dump q = d"
proof -
  from dump_revalidates [OF assms(2), of "id p"]
  have new: "\<exists>q. Patient (id p) (stored_kwargs (model_dump p)) = Inr q \<and> model_dump q = model_dump p"
    by blast
  show ?thesis
    using assms(1) new set_update_subset [of "id p" "model_dump p" coll]
    by (auto simp: create_patient_def load_data_def save_data_def Let_def)
qed

lemma update_keeps_valid:
  assumes "\<forall>(k, d) \<in> set coll. \<exists>q. Patient k (stored_kwargs d) = Inr q \<and> model_dump q = d"
  shows "\<forall>(k, d) \<in> set (snd (update_patient patient_id u coll)).
           \<exists>q. Patient k (stored_kwargs d) = Inr q \<and> model_dump q = d"
proof (cases "map_of coll patient_id")
  case None
  then show ?thesis using assms by (simp add: update_patient_def load_data_def)
next
  case (Some old)
  show ?thesis
  proof (cases "Patient patient_id (apply_update u (stored_kwargs old))")
    case (Inl e)
    then show ?thesis using assms Some by (simp add: update_patient_def load_data_def)
  next
    case (Inr q)
    from dump_revalidates [OF Inr, of patient_id]
    have new: "\<exists>q'. Patient patient_id (stored_kwargs (model_dump q)) = Inr q'
                 \<and> model_dump q' = model_dump q"
      by blast
    have "snd (update_patient patient_id u coll) = AList.update patient_id (model_dump q) coll"
      using Some Inr by (simp add: update_patient_def load_data_def save_data_def)
    then show ?thesis
      using assms new set_update_subset [of patient_id "model_dump q" coll] by auto
  qed
qed

lemma delete_keeps_valid:
  assumes "\<forall>(k, d) \<in> set coll. \<exists>q. Patient k (stored_kwargs d) = Inr q \<and> model_dump q = d"
  shows "\<forall>(k, d) \<in> set (snd (delete_patient patient_id coll)).
           \<exists>q. Patient k (stored_kwargs d) = Inr q \<and> model_dump q = d"
  using assms set_delete_subset [of patient_id coll]
  by (auto simp: delete_patient_def load_data_def save_data_def Let_def)

subsection \<open>Update as a merge\<close>










end
